theory Spec2Isabelle
  imports Main
begin

section \<open>Chat protocol data\<close>

text \<open>
  The chat protocol's message: a role out of three and a text. \<open>AIChatMessage[]\<close> is a
  list of them, oldest first, the last one being the question asked.
\<close>

datatype AIChatRole = User | Assistant | System

fun role_name :: "AIChatRole \<Rightarrow> string" where
  "role_name User = ''user''"
| "role_name Assistant = ''assistant''"
| "role_name System = ''system''"

record AIChatMessage =
  role :: AIChatRole
  content :: string

text \<open>
  What a call can throw: an \<open>Error\<close> of a collaborator (vector store, chat model), the
  \<open>TypeError\<close> of the JavaScript runtime, and the failure of a builder call made against
  its contract. Each carries its \<open>message\<close>.
\<close>

datatype error = Error string | TypeError string | ContractViolation string

fun error_message :: "error \<Rightarrow> string" where
  "error_message (Error m) = m"
| "error_message (TypeError m) = m"
| "error_message (ContractViolation m) = m"

section \<open>MessageBuilder\<close>

text \<open>
  Modelled from the spec: the class \<open>MessageBuilder\<close> of \<open>lib/message-builder\<close>, which
  \<open>plugins/chat.ts\<close> imports, is not among the sources. Its fields, constructor,
  \<open>appendMessage\<close>, \<open>popMessage\<close> and \<open>getMessages\<close> follow the specification's
  component design (section 4.1) and data model (section 3).

  The token estimate of one message under a token model is the tokenizer's business; it
  is a parameter here (\<open>token_counter\<close>: token model, message, count).

  The specification leaves open what \<open>popMessage\<close> does on fewer than two messages
  ("a no-op or fails"); \<open>pop_guard\<close> selects one of the two, and every statement below
  holds for both.
\<close>

type_synonym token_counter = "string \<Rightarrow> AIChatMessage \<Rightarrow> int"

record MessageBuilder =
  systemMessage :: string
  tokenModel :: string
  messages :: "AIChatMessage list"
  tokens :: int

datatype pop_guard = NoOp | Fails

definition MessageBuilder_new :: "token_counter \<Rightarrow> string \<Rightarrow> string \<Rightarrow> MessageBuilder" where
  "MessageBuilder_new est sys tm =
     \<lparr>systemMessage = sys, tokenModel = tm,
      messages = [\<lparr>role = System, content = sys\<rparr>],
      tokens = est tm \<lparr>role = System, content = sys\<rparr>\<rparr>"

definition appendMessage ::
  "token_counter \<Rightarrow> AIChatRole \<Rightarrow> string \<Rightarrow> MessageBuilder \<Rightarrow> MessageBuilder" where
  "appendMessage est r c mb =
     mb\<lparr>messages := messages mb @ [\<lparr>role = r, content = c\<rparr>],
        tokens := tokens mb + est (tokenModel mb) \<lparr>role = r, content = c\<rparr>\<rparr>"

definition popMessage ::
  "pop_guard \<Rightarrow> token_counter \<Rightarrow> MessageBuilder \<Rightarrow> error + MessageBuilder" where
  "popMessage g est mb =
     (case messages mb of
        s # m # rest \<Rightarrow>
          Inr (mb\<lparr>messages := s # rest, tokens := tokens mb - est (tokenModel mb) m\<rparr>)
      | _ \<Rightarrow>
          (case g of
             NoOp \<Rightarrow> Inr mb
           | Fails \<Rightarrow> Inl (ContractViolation ''popMessage: no message to remove'')))"

definition getMessages :: "MessageBuilder \<Rightarrow> AIChatMessage list" where
  "getMessages mb = messages mb"

text \<open>
  A sequence of builder calls. The builder is mutated in place, so a call that throws
  leaves the state the calls before it made: \<open>run_ops\<close> returns the error, if any, and
  the builder as it stands when the sequence ends.
\<close>

datatype builder_op = Append AIChatRole string | Pop

fun run_ops ::
  "pop_guard \<Rightarrow> token_counter \<Rightarrow> builder_op list \<Rightarrow> MessageBuilder \<Rightarrow> error option \<times> MessageBuilder"
  where
  "run_ops g est [] mb = (None, mb)"
| "run_ops g est (Append r c # ops) mb = run_ops g est ops (appendMessage est r c mb)"
| "run_ops g est (Pop # ops) mb =
     (case popMessage g est mb of
        Inl e \<Rightarrow> (Some e, mb)
      | Inr mb' \<Rightarrow> run_ops g est ops mb')"

text \<open>The sum of the estimates of the messages a builder holds.\<close>

definition estimated_total :: "token_counter \<Rightarrow> MessageBuilder \<Rightarrow> int" where
  "estimated_total est mb = sum_list (map (est (tokenModel mb)) (messages mb))"

text \<open>A stand-in tokenizer for concrete runs: four tokens of overhead and one per character.\<close>

definition char_count :: token_counter where
  "char_count tm m = 4 + int (length (content m))"

section \<open>The chat service\<close>

text \<open>The system prompt of \<open>plugins/chat.ts\<close>, character for character.\<close>

definition SYSTEM_MESSAGE_PROMPT :: string where
  "SYSTEM_MESSAGE_PROMPT =
      ''You are an AI coach designed to help people achieve their health and fitness '' @
      ''goals. Answer questions by referencing the knowledge base provided below. '' @
      ''If there isn't enough information in the sources, say you don't know. '' @
      ''Do not generate answers that don't use the provided sources. \<newline>'' @
      ''\<newline>'' @
      ''For any recommendations, always cite the specific source of information '' @
      ''using square brackets, for example: [document1.pdf]. List each source '' @
      ''separately, don't combine them, for example: [document1.pdf][document2.pdf].\<newline>'' @
      ''\<newline>'' @
      ''Your answers should always be backed by relevant information from the '' @
      ''sources. Always reference the sources. You can ask a follow up question '' @
      ''but reserve that for the most needed cases. \<newline>'' @
      ''\<newline>'' @
      ''The ideal response should give the user exactly what they need to know '' @
      ''- nothing more, nothing less. To emphasize, be concise. \<newline>''"

text \<open>
  A retrieved document (its \<open>metadata.source\<close> and its \<open>pageContent\<close>), the part of the
  configuration the service reads, and the service: its public field \<open>tokenLimit\<close> and
  the three collaborators its constructor receives. The chat model and the vector store
  are calls that return or throw.
\<close>

record Document =
  source :: string
  pageContent :: string

record AppConfig =
  azureOpenAiApiEndpoint :: string
  azureOpenAiApiModelName :: string

record ChatService =
  tokenLimit :: int
  config :: AppConfig
  model :: "AIChatMessage list \<Rightarrow> error + string"
  vectorStore :: "string \<Rightarrow> nat \<Rightarrow> error + Document list"

definition ChatService_new ::
  "AppConfig \<Rightarrow> (AIChatMessage list \<Rightarrow> error + string) \<Rightarrow>
   (string \<Rightarrow> nat \<Rightarrow> error + Document list) \<Rightarrow> ChatService" where
  "ChatService_new cfg mdl vs = \<lparr>tokenLimit = 4000, config = cfg, model = mdl, vectorStore = vs\<rparr>"

text \<open>
  The string operations \<open>run\<close> uses: \<open>replaceAll(/[\n\r]+/g, ' ')\<close> turns every maximal
  run of line feeds and carriage returns into one space (the flag says whether the
  character before was part of such a run), \<open>join\<close>, and \<open>replaceAll('\n', '<br>')\<close>.
\<close>

definition is_line_break :: "char \<Rightarrow> bool" where
  "is_line_break c = (c = CHR 0x0A \<or> c = CHR 0x0D)"

fun collapse_breaks :: "bool \<Rightarrow> string \<Rightarrow> string" where
  "collapse_breaks in_run [] = []"
| "collapse_breaks in_run (c # cs) =
     (if is_line_break c
      then (if in_run then collapse_breaks True cs else CHR '' '' # collapse_breaks True cs)
      else c # collapse_breaks False cs)"

fun join :: "string \<Rightarrow> string list \<Rightarrow> string" where
  "join sep [] = []"
| "join sep [x] = x"
| "join sep (x # y # ys) = x @ sep @ join sep (y # ys)"

definition newlines_to_br :: "string \<Rightarrow> string" where
  "newlines_to_br s = concat (map (\<lambda>c. if c = CHR 0x0A then ''<br>'' else [c]) s)"

definition format_results :: "Document list \<Rightarrow> string list" where
  "format_results documents =
     map (\<lambda>d. source d @ '': '' @ collapse_breaks False (pageContent d)) documents"

definition userMessage_of :: "string \<Rightarrow> string list \<Rightarrow> string" where
  "userMessage_of question results =
     question @ ''\<newline>\<newline>Sources:\<newline>'' @ join ''\<newline>'' results"

text \<open>
  The loop of \<open>run\<close> over \<open>messages.slice(0, -1).reverse()\<close>: at the head of each
  iteration the builder's total is compared with the limit; above it, \<open>popMessage()\<close>
  and \<open>break\<close>; otherwise the history message is appended and the loop goes on.
\<close>

fun history_loop ::
  "pop_guard \<Rightarrow> token_counter \<Rightarrow> int \<Rightarrow> AIChatMessage list \<Rightarrow> MessageBuilder \<Rightarrow>
   error + MessageBuilder" where
  "history_loop g est limit [] mb = Inr mb"
| "history_loop g est limit (h # hs) mb =
     (if tokens mb > limit then popMessage g est mb
      else history_loop g est limit hs (appendMessage est (role h) (content h) mb))"

text \<open>
  Lines 57 to 67 of \<open>run\<close>: a new builder on the system prompt, the user message, then
  the loop over the earlier messages, newest first.
\<close>

definition build_prompt ::
  "pop_guard \<Rightarrow> token_counter \<Rightarrow> ChatService \<Rightarrow> string \<Rightarrow> AIChatMessage list \<Rightarrow>
   error + MessageBuilder" where
  "build_prompt g est svc userMessage msgs =
     history_loop g est (tokenLimit svc) (rev (butlast msgs))
       (appendMessage est User userMessage
          (MessageBuilder_new est SYSTEM_MESSAGE_PROMPT (azureOpenAiApiModelName (config svc))))"

text \<open>
  Lines 35 to 67: the question is the content of the last message (a \<open>TypeError\<close> on an
  empty array), the vector store is asked for three documents, and the prompt is built.
  The result is the formatted sources and the builder.
\<close>

definition prepare ::
  "pop_guard \<Rightarrow> token_counter \<Rightarrow> ChatService \<Rightarrow> AIChatMessage list \<Rightarrow>
   error + (string list \<times> MessageBuilder)" where
  "prepare g est svc msgs =
     (case msgs of
        [] \<Rightarrow> Inl (TypeError ''Cannot read properties of undefined (reading 'content')'')
      | _ # _ \<Rightarrow>
          (case vectorStore svc (content (last msgs)) 3 of
             Inl e \<Rightarrow> Inl e
           | Inr documents \<Rightarrow>
               (case build_prompt g est svc
                       (userMessage_of (content (last msgs)) (format_results documents)) msgs of
                  Inl e \<Rightarrow> Inl e
                | Inr mb \<Rightarrow> Inr (format_results documents, mb))))"

record ChatContext =
  data_points :: "string list"
  thoughts :: string

record AIChatCompletion =
  message :: AIChatMessage
  chat_context :: ChatContext

definition thoughts_of :: "string \<Rightarrow> MessageBuilder \<Rightarrow> string" where
  "thoughts_of query mb =
     newlines_to_br
       (''Search query:\<newline>'' @ query @ ''\<newline>\<newline>Conversation:\<newline>'' @
        join ''\<newline>\<newline>'' (map (\<lambda>m. role_name (role m) @ '': '' @ content m) (messages mb)))"

text \<open>
  \<open>ChatService.run\<close>: the chat model is invoked on \<open>getMessages()\<close> of the builder, and
  its answer is returned with the sources and the processing details.
\<close>

definition run ::
  "pop_guard \<Rightarrow> token_counter \<Rightarrow> ChatService \<Rightarrow> AIChatMessage list \<Rightarrow> error + AIChatCompletion"
  where
  "run g est svc msgs =
     (case prepare g est svc msgs of
        Inl e \<Rightarrow> Inl e
      | Inr (results, mb) \<Rightarrow>
          (case model svc (getMessages mb) of
             Inl e \<Rightarrow> Inl e
           | Inr completion \<Rightarrow>
               Inr \<lparr>message = \<lparr>role = Assistant, content = completion\<rparr>,
                    chat_context =
                      \<lparr>data_points = results,
                       thoughts = thoughts_of (content (last msgs)) mb\<rparr>\<rparr>))"

section \<open>The routes\<close>

text \<open>
  A handler receives the \<open>messages\<close> of the request body and the server log, and gives
  the log and the reply: the completion as JSON, a stream of NDJSON lines, or the
  internal server error of \<open>reply.internalServerError(error.message)\<close>.
\<close>

datatype reply = Json AIChatCompletion | NdJson "string list" | InternalServerError string

definition chat_handler ::
  "pop_guard \<Rightarrow> token_counter \<Rightarrow> ChatService \<Rightarrow> error list \<Rightarrow> AIChatMessage list \<Rightarrow>
   error list \<times> reply" where
  "chat_handler g est svc log msgs =
     (case run g est svc msgs of
        Inr completion \<Rightarrow> (log, Json completion)
      | Inl e \<Rightarrow> (log @ [e], InternalServerError (error_message e)))"

text \<open>
  The members the class \<open>ChatService\<close> declares: its field, the three parameter
  properties of its constructor, and its one method. Reading any other name off an
  instance gives \<open>undefined\<close>, and calling that throws a \<open>TypeError\<close>.
\<close>

definition ChatService_members :: "string list" where
  "ChatService_members = [''tokenLimit'', ''config'', ''model'', ''vectorStore'', ''constructor'', ''run'']"

definition createNdJsonStream :: "('c \<Rightarrow> string) \<Rightarrow> 'c list \<Rightarrow> string list" where
  "createNdJsonStream stringify chunks = map (\<lambda>chunk. stringify chunk @ ''\<newline>'') chunks"

text \<open>
  The handler of \<open>/chat/stream\<close> calls \<open>fastify.chat.runWithStreaming(messages)\<close> inside
  its \<open>try\<close>. \<open>runWithStreaming\<close> stands for the method such a member would be, and
  \<open>stringify\<close> for \<open>JSON.stringify\<close>.
\<close>

definition chat_stream_handler ::
  "('c \<Rightarrow> string) \<Rightarrow> (AIChatMessage list \<Rightarrow> error + 'c list) \<Rightarrow> error list \<Rightarrow>
   AIChatMessage list \<Rightarrow> error list \<times> reply" where
  "chat_stream_handler stringify runWithStreaming log msgs =
     (case (if ''runWithStreaming'' \<in> set ChatService_members
            then runWithStreaming msgs
            else Inl (TypeError ''fastify.chat.runWithStreaming is not a function'')) of
        Inr chunks \<Rightarrow> (log, NdJson (createNdJsonStream stringify chunks))
      | Inl e \<Rightarrow> (log @ [e], InternalServerError (error_message e)))"

section \<open>Notions the statements use\<close>

text \<open>
  The sequence \<open>run\<close> hands to the chat model: \<open>getMessages()\<close> of the builder that
  lines 35 to 67 leave, when they do not throw.
\<close>

definition prompt_messages ::
  "pop_guard \<Rightarrow> token_counter \<Rightarrow> ChatService \<Rightarrow> AIChatMessage list \<Rightarrow>
   error + AIChatMessage list" where
  "prompt_messages g est svc msgs =
     (case prepare g est svc msgs of
        Inl e \<Rightarrow> Inl e
      | Inr (results, mb) \<Rightarrow> Inr (getMessages mb))"

text \<open>A run of \<open>appendMessage\<close> calls, one for each message of a list, in the list's order.\<close>

definition append_all :: "token_counter \<Rightarrow> AIChatMessage list \<Rightarrow> MessageBuilder \<Rightarrow> MessageBuilder"
  where
  "append_all est hs mb = foldl (\<lambda>b h. appendMessage est (role h) (content h) b) mb hs"

text \<open>
  The builder \<open>run\<close> has made when the loop over the history starts: the system prompt
  and the user message.
\<close>

definition initial_builder :: "token_counter \<Rightarrow> ChatService \<Rightarrow> string \<Rightarrow> MessageBuilder" where
  "initial_builder est svc userMessage =
     appendMessage est User userMessage
       (MessageBuilder_new est SYSTEM_MESSAGE_PROMPT (azureOpenAiApiModelName (config svc)))"

text \<open>A service for concrete runs: no document is found, and the chat model answers.\<close>

definition example_service :: ChatService where
  "example_service =
     ChatService_new \<lparr>azureOpenAiApiEndpoint = ''https://example.openai.azure.com'',
                      azureOpenAiApiModelName = ''gpt-4o-mini''\<rparr>
       (\<lambda>prompt. Inr ''ok'') (\<lambda>query k. Inr [])"

section \<open>Properties of the builder\<close>

lemma message_eta: "\<lparr>role = role h, content = content h\<rparr> = (h::AIChatMessage)"
  by simp

lemma tokenModel_appendMessage: "tokenModel (appendMessage est r c mb) = tokenModel mb"
  by (simp add: appendMessage_def)

lemma messages_appendMessage:
  "messages (appendMessage est r c mb) = messages mb @ [\<lparr>role = r, content = c\<rparr>]"
  by (simp add: appendMessage_def)

lemma tokens_appendMessage:
  "tokens (appendMessage est r c mb) = tokens mb + est (tokenModel mb) \<lparr>role = r, content = c\<rparr>"
  by (simp add: appendMessage_def)

lemma append_all_Nil: "append_all est [] mb = mb"
  by (simp add: append_all_def)

lemma append_all_Cons:
  "append_all est (h # hs) mb = append_all est hs (appendMessage est (role h) (content h) mb)"
  by (simp add: append_all_def)

lemma tokenModel_append_all: "tokenModel (append_all est hs mb) = tokenModel mb"
  by (induction hs arbitrary: mb) (simp_all add: append_all_Nil append_all_Cons tokenModel_appendMessage)

lemma messages_append_all: "messages (append_all est hs mb) = messages mb @ hs"
  by (induction hs arbitrary: mb) (simp_all add: append_all_Nil append_all_Cons messages_appendMessage message_eta)

lemma tokens_append_all:
  "tokens (append_all est hs mb) = tokens mb + sum_list (map (est (tokenModel mb)) hs)"
  by (induction hs arbitrary: mb)
     (simp_all add: append_all_Nil append_all_Cons tokens_appendMessage tokenModel_appendMessage message_eta)

section \<open>The loop over the history\<close>

text \<open>
  The loop appends the first \<open>k\<close> messages of the list it walks, where \<open>k\<close> is the first
  position at which the total stands above the limit when the next iteration starts, or
  the length of the list when there is none; in the first case it ends with
  \<open>popMessage()\<close>.
\<close>

lemma history_loop_walk:
  "\<exists>k\<le>length hs.
     (\<forall>j<k. tokens (append_all est (take j hs) mb) \<le> limit) \<and>
     (if k < length hs
      then limit < tokens (append_all est (take k hs) mb) \<and>
           history_loop g est limit hs mb = popMessage g est (append_all est (take k hs) mb)
      else history_loop g est limit hs mb = Inr (append_all est hs mb))"
proof (induction hs arbitrary: mb)
  case Nil
  then show ?case by (simp add: append_all_Nil)
next
  case (Cons h hs)
  show ?case
  proof (cases "limit < tokens mb")
    case True
    then have "(\<forall>j<0::nat. tokens (append_all est (take j (h # hs)) mb) \<le> limit) \<and>
       (if 0 < length (h # hs)
        then limit < tokens (append_all est (take 0 (h # hs)) mb) \<and>
           history_loop g est limit (h # hs) mb = popMessage g est (append_all est (take 0 (h # hs)) mb)
        else history_loop g est limit (h # hs) mb = Inr (append_all est (h # hs) mb))"
      by (simp add: append_all_Nil)
    then show ?thesis by blast
  next
    case False
    let ?mb = "appendMessage est (role h) (content h) mb"
    from Cons.IH [of ?mb] obtain k where k: "k \<le> length hs"
      and below: "\<forall>j<k. tokens (append_all est (take j hs) ?mb) \<le> limit"
      and res: "if k < length hs
        then limit < tokens (append_all est (take k hs) ?mb) \<and>
           history_loop g est limit hs ?mb = popMessage g est (append_all est (take k hs) ?mb)
        else history_loop g est limit hs ?mb = Inr (append_all est hs ?mb)"
      by blast
    have "\<forall>j<Suc k. tokens (append_all est (take j (h # hs)) mb) \<le> limit"
    proof (intro allI impI)
      fix j assume "j < Suc k"
      show "tokens (append_all est (take j (h # hs)) mb) \<le> limit"
      proof (cases j)
        case 0
        with False show ?thesis by (simp add: append_all_Nil)
      next
        case (Suc i)
        with \<open>j < Suc k\<close> below show ?thesis by (simp add: append_all_Cons)
      qed
    qed
    moreover from res False have "if Suc k < length (h # hs)
        then limit < tokens (append_all est (take (Suc k) (h # hs)) mb) \<and>
           history_loop g est limit (h # hs) mb = popMessage g est (append_all est (take (Suc k) (h # hs)) mb)
        else history_loop g est limit (h # hs) mb = Inr (append_all est (h # hs) mb)"
      by (simp add: append_all_Cons)
    moreover from k have "Suc k \<le> length (h # hs)" by simp
    ultimately show ?thesis by blast
  qed
qed

lemma length_SYSTEM_MESSAGE_PROMPT: "length SYSTEM_MESSAGE_PROMPT = 820"
  by (simp add: SYSTEM_MESSAGE_PROMPT_def)

lemma popMessage_two:
  "messages mb = s # m # rest \<Longrightarrow>
   popMessage g est mb =
     Inr (mb\<lparr>messages := s # rest, tokens := tokens mb - est (tokenModel mb) m\<rparr>)"
  by (simp add: popMessage_def)

lemma messages_initial_builder:
  "messages (initial_builder est svc um) =
     [\<lparr>role = System, content = SYSTEM_MESSAGE_PROMPT\<rparr>, \<lparr>role = User, content = um\<rparr>]"
  by (simp add: initial_builder_def appendMessage_def MessageBuilder_new_def)

lemma build_prompt_initial:
  "build_prompt g est svc um msgs =
     history_loop g est (tokenLimit svc) (rev (butlast msgs)) (initial_builder est svc um)"
  by (simp add: build_prompt_def initial_builder_def)

section \<open>Invariants of the builder\<close>

lemma popMessage_short:
  "length (messages mb) < 2 \<Longrightarrow>
   popMessage g est mb =
     (case g of NoOp \<Rightarrow> Inr mb
      | Fails \<Rightarrow> Inl (ContractViolation ''popMessage: no message to remove''))"
  by (cases "messages mb"; cases "tl (messages mb)") (auto simp: popMessage_def)

lemma popMessage_keeps_head:
  assumes "popMessage g est mb = Inr mb'" and "messages mb \<noteq> []"
  shows "messages mb' \<noteq> [] \<and> hd (messages mb') = hd (messages mb)"
proof (cases "messages mb")
  case Nil
  with assms show ?thesis by simp
next
  case (Cons s ms)
  with assms show ?thesis
    by (cases ms; cases g) (auto simp: popMessage_def)
qed

lemma popMessage_keeps_tokenModel:
  "popMessage g est mb = Inr mb' \<Longrightarrow> tokenModel mb' = tokenModel mb"
  by (auto simp: popMessage_def split: list.splits pop_guard.splits)

lemma popMessage_keeps_total:
  assumes "popMessage g est mb = Inr mb'" and "tokens mb = estimated_total est mb"
  shows "tokens mb' = estimated_total est mb'"
  using assms
  by (auto simp: popMessage_def estimated_total_def split: list.splits pop_guard.splits)

lemma appendMessage_keeps_total:
  "tokens mb = estimated_total est mb \<Longrightarrow>
   tokens (appendMessage est r c mb) = estimated_total est (appendMessage est r c mb)"
  by (simp add: appendMessage_def estimated_total_def)

lemma run_ops_keeps_head:
  "messages mb \<noteq> [] \<Longrightarrow>
   messages (snd (run_ops g est ops mb)) \<noteq> [] \<and>
   hd (messages (snd (run_ops g est ops mb))) = hd (messages mb)"
proof (induction g est ops mb rule: run_ops.induct)
  case (1 g est mb)
  then show ?case by simp
next
  case (2 g est r c ops mb)
  then show ?case by (simp add: messages_appendMessage)
next
  case (3 g est ops mb)
  show ?case
  proof (cases "popMessage g est mb")
    case (Inl e)
    with "3.prems" show ?thesis by simp
  next
    case (Inr mb')
    from popMessage_keeps_head [OF Inr "3.prems"] "3.IH" [OF Inr] Inr
    show ?thesis by simp
  qed
qed

lemma run_ops_keeps_total:
  "tokens mb = estimated_total est mb \<Longrightarrow>
   tokens (snd (run_ops g est ops mb)) = estimated_total est (snd (run_ops g est ops mb))"
proof (induction g est ops mb rule: run_ops.induct)
  case (1 g est mb)
  then show ?case by simp
next
  case (2 g est r c ops mb)
  then show ?case by (simp add: appendMessage_keeps_total)
next
  case (3 g est ops mb)
  show ?case
  proof (cases "popMessage g est mb")
    case (Inl e)
    with "3.prems" show ?thesis by simp
  next
    case (Inr mb')
    from "3.IH" [OF Inr popMessage_keeps_total [OF Inr "3.prems"]] Inr
    show ?thesis by simp
  qed
qed

text \<open>
  C7: whatever sequence of \<open>appendMessage\<close> and \<open>popMessage\<close> calls is made on a new
  builder, its messages are never empty and the first of them is the system message;
  and \<open>popMessage\<close> on a builder that holds one message only leaves it as it is, whether
  it returns or fails.
\<close>

theorem system_message_stays_first:
  "messages (snd (run_ops g est ops (MessageBuilder_new est sys tm))) \<noteq> [] \<and>
   messages (snd (run_ops g est ops (MessageBuilder_new est sys tm))) ! 0 =
     \<lparr>role = System, content = sys\<rparr> \<and>
   (length (messages mb) = 1 \<longrightarrow>
      popMessage g est mb = Inr mb \<or>
      popMessage g est mb = Inl (ContractViolation ''popMessage: no message to remove''))"
proof -
  let ?mb = "MessageBuilder_new est sys tm"
  have "messages ?mb \<noteq> []" by (simp add: MessageBuilder_new_def)
  from run_ops_keeps_head [OF this, of g est ops]
  have "messages (snd (run_ops g est ops ?mb)) \<noteq> []"
    and "hd (messages (snd (run_ops g est ops ?mb))) = \<lparr>role = System, content = sys\<rparr>"
    by (simp_all add: MessageBuilder_new_def)
  moreover have "length (messages mb) = 1 \<longrightarrow>
      popMessage g est mb = Inr mb \<or>
      popMessage g est mb = Inl (ContractViolation ''popMessage: no message to remove'')"
    by (cases g) (simp_all add: popMessage_short)
  ultimately show ?thesis by (simp add: hd_conv_nth)
qed

theorem system_message_stays_first_witness:
  "messages (snd (run_ops Fails char_count [Append User ''q'', Pop, Pop, Append Assistant ''a'']
      (MessageBuilder_new char_count ''be brief'' ''gpt-4o-mini''))) ! 0 =
     \<lparr>role = System, content = ''be brief''\<rparr> \<and>
   length (messages (MessageBuilder_new char_count ''be brief'' ''gpt-4o-mini'')) = 1 \<and>
   popMessage Fails char_count (MessageBuilder_new char_count ''be brief'' ''gpt-4o-mini'') =
     Inl (ContractViolation ''popMessage: no message to remove'') \<and>
   run_ops Fails char_count [Append User ''q'', Pop, Pop, Append Assistant ''a'']
      (MessageBuilder_new char_count ''be brief'' ''gpt-4o-mini'') =
     (Some (ContractViolation ''popMessage: no message to remove''),
      MessageBuilder_new char_count ''be brief'' ''gpt-4o-mini'')"
  using system_message_stays_first [of Fails char_count
      "[Append User ''q'', Pop, Pop, Append Assistant ''a'']" "''be brief''" "''gpt-4o-mini''"
      "MessageBuilder_new char_count ''be brief'' ''gpt-4o-mini''"]
  by (simp add: MessageBuilder_new_def appendMessage_def popMessage_def char_count_def)

text \<open>
  C8: after construction and any sequence of \<open>appendMessage\<close> and \<open>popMessage\<close> calls,
  \<open>tokens\<close> is the sum of the estimates of the messages the builder holds, the system
  message included.
\<close>

theorem tokens_is_sum_of_estimates:
  "tokens (snd (run_ops g est ops (MessageBuilder_new est sys tm))) =
   sum_list (map (est tm) (messages (snd (run_ops g est ops (MessageBuilder_new est sys tm)))))"
proof -
  let ?mb = "MessageBuilder_new est sys tm"
  have "tokens ?mb = estimated_total est ?mb"
    by (simp add: MessageBuilder_new_def estimated_total_def)
  from run_ops_keeps_total [OF this, of g ops]
  have "tokens (snd (run_ops g est ops ?mb)) = estimated_total est (snd (run_ops g est ops ?mb))" .
  moreover have "tokenModel (snd (run_ops g est ops mb)) = tokenModel mb" for mb
  proof (induction g est ops mb rule: run_ops.induct)
    case (3 g est ops mb)
    then show ?case
      by (cases "popMessage g est mb") (simp_all add: popMessage_keeps_tokenModel)
  qed (simp_all add: tokenModel_appendMessage)
  ultimately show ?thesis
    by (simp add: estimated_total_def MessageBuilder_new_def)
qed

theorem tokens_is_sum_of_estimates_witness:
  "tokens (snd (run_ops NoOp char_count [Append User ''question'', Append Assistant ''answer'', Pop]
      (MessageBuilder_new char_count ''be brief'' ''gpt-4o-mini''))) = 22 \<and>
   sum_list (map (char_count ''gpt-4o-mini'')
      (messages (snd (run_ops NoOp char_count
         [Append User ''question'', Append Assistant ''answer'', Pop]
         (MessageBuilder_new char_count ''be brief'' ''gpt-4o-mini''))))) = 22"
  using tokens_is_sum_of_estimates [of NoOp char_count
      "[Append User ''question'', Append Assistant ''answer'', Pop]" "''be brief''" "''gpt-4o-mini''"]
  by (simp add: MessageBuilder_new_def appendMessage_def popMessage_def char_count_def)

text \<open>
  C9: on a builder that holds a message besides the system message, \<open>popMessage()\<close>
  succeeds, and appending the removed message's role and content again brings \<open>tokens\<close>
  back to its value before the pop.
\<close>

theorem pop_then_append_restores_tokens:
  assumes "2 \<le> length (messages mb)"
  shows "\<exists>mb'. popMessage g est mb = Inr mb' \<and>
     tokens (appendMessage est (role (messages mb ! 1)) (content (messages mb ! 1)) mb') =
       tokens mb"
proof -
  from assms obtain s m rest where ms: "messages mb = s # m # rest"
    by (cases "messages mb"; cases "tl (messages mb)") auto
  from popMessage_two [OF ms, of g est] ms show ?thesis
    by (simp add: appendMessage_def message_eta)
qed

theorem pop_then_append_restores_tokens_witness:
  "2 \<le> length (messages (appendMessage char_count User ''question''
      (MessageBuilder_new char_count ''be brief'' ''gpt-4o-mini''))) \<and>
   (\<exists>mb'. popMessage Fails char_count (appendMessage char_count User ''question''
        (MessageBuilder_new char_count ''be brief'' ''gpt-4o-mini'')) = Inr mb' \<and>
      tokens mb' = 12 \<and>
      tokens (appendMessage char_count User ''question'' mb') = 24)"
proof -
  let ?mb = "appendMessage char_count User ''question''
      (MessageBuilder_new char_count ''be brief'' ''gpt-4o-mini'')"
  have h: "2 \<le> length (messages ?mb)"
    by (simp add: MessageBuilder_new_def appendMessage_def)
  from pop_then_append_restores_tokens [OF h, of Fails char_count] h show ?thesis
    by (simp add: MessageBuilder_new_def appendMessage_def popMessage_def char_count_def)
qed

section \<open>The prompt \<open>run\<close> builds\<close>

text \<open>
  The answer of \<open>run\<close> is the chat model's completion on \<open>prompt_messages\<close>, and \<open>run\<close>
  throws what the preparation or the chat model throws.
\<close>

lemma run_invokes_model_on_prompt_messages:
  "map_sum id message (run g est svc msgs) =
     (case prompt_messages g est svc msgs of
        Inl e \<Rightarrow> Inl e
      | Inr prompt \<Rightarrow>
          map_sum id (\<lambda>completion. \<lparr>role = Assistant, content = completion\<rparr>) (model svc prompt))"
  by (auto simp: run_def prompt_messages_def split: sum.splits)

text \<open>
  C5: the loop walks the messages before the question from the newest to the oldest.
  It appends the \<open>k\<close> newest of them, the total being within the limit before each of
  these appends; when \<open>k\<close> is not all of them, the total after the \<open>k\<close>-th append is
  above the limit, and the loop ends there with \<open>popMessage()\<close>: no older message is
  appended, whatever its size.
\<close>

theorem history_walk_stops_at_first_overflow:
  "\<exists>k\<le>length (butlast msgs).
     (\<forall>j<k. tokens (append_all est (take j (rev (butlast msgs))) (initial_builder est svc um))
        \<le> tokenLimit svc) \<and>
     messages (append_all est (take k (rev (butlast msgs))) (initial_builder est svc um)) =
       [\<lparr>role = System, content = SYSTEM_MESSAGE_PROMPT\<rparr>, \<lparr>role = User, content = um\<rparr>] @
       take k (rev (butlast msgs)) \<and>
     (if k < length (butlast msgs)
      then tokenLimit svc <
             tokens (append_all est (take k (rev (butlast msgs))) (initial_builder est svc um)) \<and>
           build_prompt g est svc um msgs =
             popMessage g est
               (append_all est (take k (rev (butlast msgs))) (initial_builder est svc um))
      else build_prompt g est svc um msgs =
             Inr (append_all est (rev (butlast msgs)) (initial_builder est svc um)))"
proof -
  let ?hs = "rev (butlast msgs)"
  let ?mb0 = "initial_builder est svc um"
  from history_loop_walk [of ?hs est ?mb0 "tokenLimit svc" g]
  obtain k where "k \<le> length ?hs"
    and "\<forall>j<k. tokens (append_all est (take j ?hs) ?mb0) \<le> tokenLimit svc"
    and "if k < length ?hs
      then tokenLimit svc < tokens (append_all est (take k ?hs) ?mb0) \<and>
           history_loop g est (tokenLimit svc) ?hs ?mb0 =
             popMessage g est (append_all est (take k ?hs) ?mb0)
      else history_loop g est (tokenLimit svc) ?hs ?mb0 = Inr (append_all est ?hs ?mb0)"
    by blast
  then show ?thesis
    by (intro exI [of _ k])
       (simp add: build_prompt_initial messages_append_all messages_initial_builder)
qed

theorem history_walk_stops_at_first_overflow_witness:
  "build_prompt Fails char_count example_service ''q''
     [\<lparr>role = User, content = ''x''\<rparr>, \<lparr>role = Assistant, content = replicate 4000 CHR ''a''\<rparr>,
      \<lparr>role = User, content = ''y''\<rparr>, \<lparr>role = User, content = ''q''\<rparr>] =
   popMessage Fails char_count
     (append_all char_count
        [\<lparr>role = User, content = ''y''\<rparr>, \<lparr>role = Assistant, content = replicate 4000 CHR ''a''\<rparr>]
        (initial_builder char_count example_service ''q'')) \<and>
   tokens (append_all char_count [\<lparr>role = User, content = ''y''\<rparr>]
        (initial_builder char_count example_service ''q'')) = 834 \<and>
   tokens (append_all char_count
        [\<lparr>role = User, content = ''y''\<rparr>, \<lparr>role = Assistant, content = replicate 4000 CHR ''a''\<rparr>]
        (initial_builder char_count example_service ''q'')) = 4838 \<and>
   tokenLimit example_service = 4000"
proof -
  let ?msgs = "[\<lparr>role = User, content = ''x''\<rparr>,
      \<lparr>role = Assistant, content = replicate 4000 CHR ''a''\<rparr>,
      \<lparr>role = User, content = ''y''\<rparr>, \<lparr>role = User, content = ''q''\<rparr>]"
  let ?mb0 = "initial_builder char_count example_service ''q''"
  have t0: "tokens ?mb0 = 829"
    by (simp add: initial_builder_def appendMessage_def MessageBuilder_new_def char_count_def
        length_SYSTEM_MESSAGE_PROMPT)
  have t1: "tokens (append_all char_count [\<lparr>role = User, content = ''y''\<rparr>] ?mb0) = 834"
    by (simp add: tokens_append_all t0 char_count_def)
  have t2: "tokens (append_all char_count
        [\<lparr>role = User, content = ''y''\<rparr>, \<lparr>role = Assistant, content = replicate 4000 CHR ''a''\<rparr>]
        ?mb0) = 4838"
    by (simp add: tokens_append_all t0 char_count_def)
  have t3: "tokens (append_all char_count
        [\<lparr>role = User, content = ''y''\<rparr>, \<lparr>role = Assistant, content = replicate 4000 CHR ''a''\<rparr>,
         \<lparr>role = User, content = ''x''\<rparr>] ?mb0) = 4843"
    by (simp add: tokens_append_all t0 char_count_def)
  have lim: "tokenLimit example_service = 4000"
    by (simp add: example_service_def ChatService_new_def)
  have hs: "rev (butlast ?msgs) =
      [\<lparr>role = User, content = ''y''\<rparr>, \<lparr>role = Assistant, content = replicate 4000 CHR ''a''\<rparr>,
       \<lparr>role = User, content = ''x''\<rparr>]"
    by simp
  have len: "length (butlast ?msgs) = 3" by simp
  from history_walk_stops_at_first_overflow [of ?msgs char_count example_service "''q''" Fails]
  obtain k where k: "k \<le> length (butlast ?msgs)"
    and below: "\<forall>j<k. tokens (append_all char_count (take j (rev (butlast ?msgs))) ?mb0)
        \<le> tokenLimit example_service"
    and res: "if k < length (butlast ?msgs)
      then tokenLimit example_service <
             tokens (append_all char_count (take k (rev (butlast ?msgs))) ?mb0) \<and>
           build_prompt Fails char_count example_service ''q'' ?msgs =
             popMessage Fails char_count (append_all char_count (take k (rev (butlast ?msgs))) ?mb0)
      else build_prompt Fails char_count example_service ''q'' ?msgs =
             Inr (append_all char_count (rev (butlast ?msgs)) ?mb0)"
    by blast
  have "k \<noteq> 0"
  proof
    assume "k = 0"
    with res have "tokenLimit example_service < tokens (append_all char_count [] ?mb0)"
      unfolding len by simp
    with t0 show False unfolding lim by (simp add: append_all_Nil)
  qed
  moreover have "k \<noteq> 1"
  proof
    assume "k = 1"
    with res have "tokenLimit example_service <
        tokens (append_all char_count (take 1 (rev (butlast ?msgs))) ?mb0)"
      unfolding len by simp
    with t1 show False unfolding hs lim by simp
  qed
  moreover have "k \<noteq> 3"
  proof
    assume "k = 3"
    then have "(2::nat) < k" by simp
    with below have "tokens (append_all char_count (take 2 (rev (butlast ?msgs))) ?mb0)
        \<le> tokenLimit example_service"
      by blast
    with t2 show False unfolding hs lim by (simp add: numeral_2_eq_2)
  qed
  ultimately have "k = 2" using k unfolding len by arith
  with res have "build_prompt Fails char_count example_service ''q'' ?msgs =
      popMessage Fails char_count (append_all char_count (take 2 (rev (butlast ?msgs))) ?mb0)"
    unfolding len by simp
  then have "build_prompt Fails char_count example_service ''q'' ?msgs =
      popMessage Fails char_count (append_all char_count
        [\<lparr>role = User, content = ''y''\<rparr>, \<lparr>role = Assistant, content = replicate 4000 CHR ''a''\<rparr>]
        ?mb0)"
    unfolding hs by (simp add: numeral_2_eq_2)
  with t1 t2 lim show ?thesis by simp
qed

text \<open>
  C2, on the code: a conversation of two earlier messages and a question of 4000
  characters, under the default limit of 4000. The first iteration of the loop finds
  the total above the limit and calls \<open>popMessage()\<close> while the user message of the
  current turn is the only message besides the system message. The chat model receives
  the system message alone: whatever history is taken as included, the sequence is not
  the system message, that history and the current user turn last.
\<close>

theorem prompt_without_current_user_turn:
  "prompt_messages g char_count example_service
     [\<lparr>role = User, content = ''a''\<rparr>, \<lparr>role = Assistant, content = ''b''\<rparr>,
      \<lparr>role = User, content = replicate 4000 CHR ''a''\<rparr>] =
     Inr [\<lparr>role = System, content = SYSTEM_MESSAGE_PROMPT\<rparr>] \<and>
   (\<forall>included.
      prompt_messages g char_count example_service
        [\<lparr>role = User, content = ''a''\<rparr>, \<lparr>role = Assistant, content = ''b''\<rparr>,
         \<lparr>role = User, content = replicate 4000 CHR ''a''\<rparr>] \<noteq>
        Inr ([\<lparr>role = System, content = SYSTEM_MESSAGE_PROMPT\<rparr>] @ included @
             [\<lparr>role = User,
               content = replicate 4000 CHR ''a'' @ ''\<newline>\<newline>Sources:\<newline>''\<rparr>]))"
  by (simp add: prompt_messages_def prepare_def build_prompt_def example_service_def
      ChatService_new_def MessageBuilder_new_def appendMessage_def popMessage_def
      char_count_def userMessage_of_def format_results_def getMessages_def
      length_SYSTEM_MESSAGE_PROMPT)

text \<open>
  C1, on the code: a conversation of one earlier message of 4000 characters and the
  question \<open>hi\<close>, under the default limit of 4000. The total is 841 before the earlier
  message is appended and 4845 after; the loop has no iteration left to look at it, so
  the message stays in the sequence and the total stays above the limit.
\<close>

theorem overflowing_last_history_message_is_kept:
  "tokens (initial_builder char_count example_service ''hi\<newline>\<newline>Sources:\<newline>'') = 841 \<and>
   tokenLimit example_service = 4000 \<and>
   prepare g char_count example_service
     [\<lparr>role = User, content = replicate 4000 CHR ''a''\<rparr>, \<lparr>role = User, content = ''hi''\<rparr>] =
     Inr ([], \<lparr>systemMessage = SYSTEM_MESSAGE_PROMPT, tokenModel = ''gpt-4o-mini'',
               messages = [\<lparr>role = System, content = SYSTEM_MESSAGE_PROMPT\<rparr>,
                           \<lparr>role = User, content = ''hi\<newline>\<newline>Sources:\<newline>''\<rparr>,
                           \<lparr>role = User, content = replicate 4000 CHR ''a''\<rparr>],
               tokens = 4845\<rparr>)"
  by (simp add: prepare_def build_prompt_def initial_builder_def example_service_def
      ChatService_new_def MessageBuilder_new_def appendMessage_def char_count_def
      userMessage_of_def format_results_def length_SYSTEM_MESSAGE_PROMPT)

text \<open>
  C3, on the code: a conversation of one earlier message and a question of 4000
  characters, under the default limit of 4000. The total is 4839 once the user message
  is appended; the first iteration of the loop finds it above the limit and calls
  \<open>popMessage()\<close>, which takes the user message out: the chat model receives the system
  message alone.
\<close>

theorem oversized_user_message_is_popped:
  "tokens (initial_builder char_count example_service
      (replicate 4000 CHR ''a'' @ ''\<newline>\<newline>Sources:\<newline>'')) = 4839 \<and>
   tokenLimit example_service = 4000 \<and>
   prompt_messages g char_count example_service
     [\<lparr>role = Assistant, content = ''hello''\<rparr>, \<lparr>role = User, content = replicate 4000 CHR ''a''\<rparr>] =
     Inr [\<lparr>role = System, content = SYSTEM_MESSAGE_PROMPT\<rparr>]"
  by (simp add: prompt_messages_def prepare_def build_prompt_def initial_builder_def
      example_service_def ChatService_new_def MessageBuilder_new_def appendMessage_def
      popMessage_def char_count_def userMessage_of_def format_results_def getMessages_def
      length_SYSTEM_MESSAGE_PROMPT)



section \<open>The routes' replies\<close>

text \<open>
  C6: whatever the request to \<open>/chat/stream\<close> carries, the handler logs a \<open>TypeError\<close>
  and replies with an internal server error: \<open>runWithStreaming\<close> is no member of
  \<open>ChatService\<close>, so the call throws inside the \<open>try\<close> and the \<open>catch\<close> branch replies.
\<close>

theorem chat_stream_always_internal_server_error:
  "chat_stream_handler stringify runWithStreaming log msgs =
     (log @ [TypeError ''fastify.chat.runWithStreaming is not a function''],
      InternalServerError ''fastify.chat.runWithStreaming is not a function'')"
  by (simp add: chat_stream_handler_def ChatService_members_def)

text \<open>
  C10: when the vector store throws, or the chat model throws on the prompt built,
  the handler of \<open>/chat\<close> logs the error and replies with an internal server error that
  carries the error's message; the handler of \<open>/chat/stream\<close> logs an error and replies
  with an internal server error on every request. Neither lets the exception through.
\<close>

theorem upstream_failure_is_internal_server_error:
  "(msgs \<noteq> [] \<and> vectorStore svc (content (last msgs)) 3 = Inl e \<longrightarrow>
      chat_handler g est svc log msgs = (log @ [e], InternalServerError (error_message e))) \<and>
   (prompt_messages g est svc msgs = Inr prompt \<and> model svc prompt = Inl e \<longrightarrow>
      chat_handler g est svc log msgs = (log @ [e], InternalServerError (error_message e))) \<and>
   (\<exists>e'. chat_stream_handler stringify runWithStreaming log msgs =
      (log @ [e'], InternalServerError (error_message e')))"
proof (intro conjI impI)
  assume "msgs \<noteq> [] \<and> vectorStore svc (content (last msgs)) 3 = Inl e"
  then have "prepare g est svc msgs = Inl e"
    by (cases msgs) (simp_all add: prepare_def)
  then show "chat_handler g est svc log msgs = (log @ [e], InternalServerError (error_message e))"
    by (simp add: chat_handler_def run_def)
next
  assume a: "prompt_messages g est svc msgs = Inr prompt \<and> model svc prompt = Inl e"
  then obtain results mb where "prepare g est svc msgs = Inr (results, mb)"
    and "getMessages mb = prompt"
    by (auto simp: prompt_messages_def split: sum.splits)
  with a show "chat_handler g est svc log msgs = (log @ [e], InternalServerError (error_message e))"
    by (simp add: chat_handler_def run_def)
next
  show "\<exists>e'. chat_stream_handler stringify runWithStreaming log msgs =
      (log @ [e'], InternalServerError (error_message e'))"
    by (intro exI [of _ "TypeError ''fastify.chat.runWithStreaming is not a function''"])
       (simp add: chat_stream_handler_def ChatService_members_def)
qed

theorem upstream_failure_is_internal_server_error_witness:
  "vectorStore (example_service\<lparr>vectorStore := \<lambda>query k. Inl (Error ''search is down'')\<rparr>)
     (content (last [\<lparr>role = User, content = ''hi''\<rparr>])) 3 = Inl (Error ''search is down'') \<and>
   chat_handler NoOp char_count
     (example_service\<lparr>vectorStore := \<lambda>query k. Inl (Error ''search is down'')\<rparr>) []
     [\<lparr>role = User, content = ''hi''\<rparr>] =
     ([Error ''search is down''], InternalServerError ''search is down'') \<and>
   prompt_messages NoOp char_count
     (example_service\<lparr>model := \<lambda>prompt. Inl (Error ''model is down'')\<rparr>)
     [\<lparr>role = User, content = ''hi''\<rparr>] =
     Inr [\<lparr>role = System, content = SYSTEM_MESSAGE_PROMPT\<rparr>,
          \<lparr>role = User, content = ''hi\<newline>\<newline>Sources:\<newline>''\<rparr>] \<and>
   chat_handler NoOp char_count
     (example_service\<lparr>model := \<lambda>prompt. Inl (Error ''model is down'')\<rparr>) []
     [\<lparr>role = User, content = ''hi''\<rparr>] =
     ([Error ''model is down''], InternalServerError ''model is down'')"
proof -
  let ?msgs = "[\<lparr>role = User, content = ''hi''\<rparr>]"
  let ?s1 = "example_service\<lparr>vectorStore := \<lambda>query k. Inl (Error ''search is down'')\<rparr>"
  let ?s2 = "example_service\<lparr>model := \<lambda>prompt. Inl (Error ''model is down'')\<rparr>"
  let ?prompt = "[\<lparr>role = System, content = SYSTEM_MESSAGE_PROMPT\<rparr>,
          \<lparr>role = User, content = ''hi\<newline>\<newline>Sources:\<newline>''\<rparr>]"
  have h1: "?msgs \<noteq> [] \<and> vectorStore ?s1 (content (last ?msgs)) 3 = Inl (Error ''search is down'')"
    by simp
  have h2: "prompt_messages NoOp char_count ?s2 ?msgs = Inr ?prompt"
    by (simp add: prompt_messages_def prepare_def build_prompt_def example_service_def
        ChatService_new_def MessageBuilder_new_def appendMessage_def char_count_def
        userMessage_of_def format_results_def getMessages_def length_SYSTEM_MESSAGE_PROMPT)
  have h3: "model ?s2 ?prompt = Inl (Error ''model is down'')" by simp
  from upstream_failure_is_internal_server_error
    [where msgs = ?msgs and svc = ?s1 and e = "Error ''search is down''" and g = NoOp
      and est = char_count and log = "[]" and prompt = ?prompt
      and stringify = "\<lambda>chunk::string. chunk" and runWithStreaming = "\<lambda>m. Inr []"] h1
  have c1: "chat_handler NoOp char_count ?s1 [] ?msgs =
      ([Error ''search is down''], InternalServerError ''search is down'')"
    by simp
  from upstream_failure_is_internal_server_error
    [where msgs = ?msgs and svc = ?s2 and e = "Error ''model is down''" and g = NoOp
      and est = char_count and log = "[]" and prompt = ?prompt
      and stringify = "\<lambda>chunk::string. chunk" and runWithStreaming = "\<lambda>m. Inr []"] h2 h3
  have c2: "chat_handler NoOp char_count ?s2 [] ?msgs =
      ([Error ''model is down''], InternalServerError ''model is down'')"
    by simp
  from h1 h2 c1 c2 show ?thesis by simp
qed

end
